theory Spec2Isabelle
  imports Main "HOL-Library.Word"
begin

section \<open>The add-on base header \<^verbatim>\<open>kodi/AddonBase.h\<close>\<close>

text \<open>
  A shallow embedding of the binding layer of \<^verbatim>\<open>AddonBase.h\<close>: the typed settings
  view \<^verbatim>\<open>CSettingValue\<close>, the structure handle \<^verbatim>\<open>CStructHdl\<close>, the instance
  dispatch of \<^verbatim>\<open>CAddonBase\<close> and the free functions that forward to the host's
  function table. Pointers are addresses into explicit stores, C++ exceptions and
  undefined behaviour are error values, and the virtual hooks an add-on overrides are
  parameters.
\<close>

subsection \<open>Values, handles and errors\<close>

type_synonym addr = nat

text \<open>\<^verbatim>\<open>KODI_HANDLE\<close> is \<^verbatim>\<open>void*\<close>: \<open>None\<close> is \<^verbatim>\<open>nullptr\<close>.\<close>

type_synonym KODI_HANDLE = "addr option"

text \<open>
  \<^verbatim>\<open>int\<close> and \<^verbatim>\<open>unsigned int\<close> are 32 bits wide (an \<^verbatim>\<open>int\<close> is read with
  \<open>sint\<close>, an \<^verbatim>\<open>unsigned int\<close> with \<open>unat\<close>); a \<^verbatim>\<open>float\<close> is carried as its
  IEEE-754 bit pattern (the header only stores and returns floats; \<^verbatim>\<open>0.0f\<close> is the
  pattern \<open>0\<close>).
\<close>

type_synonym c_int = "32 word"
type_synonym c_uint = "32 word"
type_synonym c_float = "32 word"

text \<open>
  What a call can end in besides a normal return: a thrown \<^verbatim>\<open>std::logic_error\<close> with
  its message, a failed \<^verbatim>\<open>assert\<close>, or undefined behaviour (a dereference of a null or
  dangling pointer).
\<close>

datatype error =
    logic_error string
  | assertion_failure
  | undefined_behaviour

text \<open>
  Modelled from the spec: the enumeration \<^verbatim>\<open>ADDON_STATUS\<close> is declared in
  \<^verbatim>\<open>c-api/addon_base.h\<close>, which is not part of the sources at hand. The seven codes
  are the ones the specification lists and \<^verbatim>\<open>TranslateAddonStatus\<close> names; a value of
  the enumeration type that is none of them is \<open>ADDON_STATUS_undefined\<close> with its raw
  number.
\<close>

datatype ADDON_STATUS =
    ADDON_STATUS_OK
  | ADDON_STATUS_LOST_CONNECTION
  | ADDON_STATUS_NEED_RESTART
  | ADDON_STATUS_NEED_SETTINGS
  | ADDON_STATUS_UNKNOWN
  | ADDON_STATUS_PERMANENT_FAILURE
  | ADDON_STATUS_NOT_IMPLEMENTED
  | ADDON_STATUS_undefined int

text \<open>\<^verbatim>\<open>std::string::c_str\<close> as the host reads it: the characters before the first NUL.\<close>

definition c_str :: "string \<Rightarrow> string" where
  "c_str s = takeWhile (\<lambda>c. c \<noteq> CHR 0x00) s"

subsection \<open>\<^verbatim>\<open>TranslateAddonStatus\<close>\<close>

fun TranslateAddonStatus :: "ADDON_STATUS \<Rightarrow> string" where
  "TranslateAddonStatus ADDON_STATUS_OK = ''OK''"
| "TranslateAddonStatus ADDON_STATUS_LOST_CONNECTION = ''Lost Connection''"
| "TranslateAddonStatus ADDON_STATUS_NEED_RESTART = ''Need Restart''"
| "TranslateAddonStatus ADDON_STATUS_NEED_SETTINGS = ''Need Settings''"
| "TranslateAddonStatus ADDON_STATUS_UNKNOWN = ''Unknown error''"
| "TranslateAddonStatus ADDON_STATUS_PERMANENT_FAILURE = ''Permanent failure''"
| "TranslateAddonStatus ADDON_STATUS_NOT_IMPLEMENTED = ''Not implemented''"
| "TranslateAddonStatus (ADDON_STATUS_undefined n) = ''Unknown''"

subsection \<open>The typed settings view \<^verbatim>\<open>CSettingValue\<close>\<close>

text \<open>
  \<^verbatim>\<open>m_settingValue\<close> is a \<^verbatim>\<open>const void*\<close> into host memory: \<open>None\<close> is the null
  pointer, \<open>Some bs\<close> a pointer at which the bytes \<open>bs\<close> (and no more) can be read.
\<close>

record CSettingValue =
  m_settingValue :: "char list option"

definition empty_sv :: "CSettingValue \<Rightarrow> bool" where
  "empty_sv v = (if m_settingValue v = None then True else False)"

text \<open>Four bytes read as a 32-bit object, least significant byte first.\<close>

definition load32 :: "char list \<Rightarrow> 32 word" where
  "load32 bs = foldr (\<lambda>b acc. of_char b + 256 * acc) (take 4 bs) 0"

text \<open>
  Each getter casts the pointer and reads through it at once. Reading through the null
  pointer, past the readable bytes, or a string with no terminating NUL is undefined.
\<close>

definition GetString :: "CSettingValue \<Rightarrow> error + string" where
  "GetString v =
     (case m_settingValue v of
        None \<Rightarrow> Inl undefined_behaviour
      | Some bs \<Rightarrow>
          if CHR 0x00 \<in> set bs then Inr (c_str bs) else Inl undefined_behaviour)"

definition GetInt :: "CSettingValue \<Rightarrow> error + c_int" where
  "GetInt v =
     (case m_settingValue v of
        None \<Rightarrow> Inl undefined_behaviour
      | Some bs \<Rightarrow>
          if length bs < 4 then Inl undefined_behaviour else Inr (load32 bs))"

definition GetUInt :: "CSettingValue \<Rightarrow> error + c_uint" where
  "GetUInt v =
     (case m_settingValue v of
        None \<Rightarrow> Inl undefined_behaviour
      | Some bs \<Rightarrow>
          if length bs < 4 then Inl undefined_behaviour else Inr (load32 bs))"

definition GetBoolean :: "CSettingValue \<Rightarrow> error + bool" where
  "GetBoolean v =
     (case m_settingValue v of
        None \<Rightarrow> Inl undefined_behaviour
      | Some [] \<Rightarrow> Inl undefined_behaviour
      | Some (b # _) \<Rightarrow> Inr (b \<noteq> CHR 0x00))"

definition GetFloat :: "CSettingValue \<Rightarrow> error + c_float" where
  "GetFloat v =
     (case m_settingValue v of
        None \<Rightarrow> Inl undefined_behaviour
      | Some bs \<Rightarrow>
          if length bs < 4 then Inl undefined_behaviour else Inr (load32 bs))"

subsection \<open>The host's function table\<close>

text \<open>
  Modelled from the spec: \<^verbatim>\<open>AddonToKodiFuncTable_Addon\<close> is declared in
  \<^verbatim>\<open>c-api/addon_base.h\<close> and implemented by the host. Each entry is what the host
  answers: a path entry returns a C string (\<open>None\<close> for a null pointer); a settings
  entry takes the setting's name and the present content of the output cell and returns
  its success flag with the content of the cell afterwards. Only the entries this
  header calls are listed.
\<close>

record AddonToKodiFuncTable_Addon =
  kodiBase :: KODI_HANDLE
  get_addon_path :: "KODI_HANDLE \<Rightarrow> string option"
  get_base_user_path :: "KODI_HANDLE \<Rightarrow> string option"
  get_setting_string :: "KODI_HANDLE \<Rightarrow> string \<Rightarrow> string option \<Rightarrow> bool \<times> string option"
  get_setting_int :: "KODI_HANDLE \<Rightarrow> string \<Rightarrow> c_int \<Rightarrow> bool \<times> c_int"
  get_setting_bool :: "KODI_HANDLE \<Rightarrow> string \<Rightarrow> bool \<Rightarrow> bool \<times> bool"
  get_setting_float :: "KODI_HANDLE \<Rightarrow> string \<Rightarrow> c_float \<Rightarrow> bool \<times> c_float"

subsection \<open>Path accessors\<close>

text \<open>
  The tail both accessors share: \<open>TARGET_WINDOWS\<close> is the preprocessor switch that
  selects the separator.
\<close>

definition append_path :: "bool \<Rightarrow> string \<Rightarrow> string \<Rightarrow> string" where
  "append_path TARGET_WINDOWS ret append' =
     (if append' \<noteq> [] then
        (if hd append' \<noteq> CHR 0x5C \<and> hd append' \<noteq> CHR ''/''
         then (if TARGET_WINDOWS then ret @ [CHR 0x5C] else ret @ ''/'')
         else ret) @ append'
      else ret)"

definition GetAddonPath ::
  "bool \<Rightarrow> AddonToKodiFuncTable_Addon \<Rightarrow> string \<Rightarrow> error + string" where
  "GetAddonPath TARGET_WINDOWS toKodi append' =
     (case get_addon_path toKodi (kodiBase toKodi) of
        None \<Rightarrow> Inl undefined_behaviour
      | Some str \<Rightarrow> Inr (append_path TARGET_WINDOWS str append'))"

definition GetBaseUserPath ::
  "bool \<Rightarrow> AddonToKodiFuncTable_Addon \<Rightarrow> string \<Rightarrow> error + string" where
  "GetBaseUserPath TARGET_WINDOWS toKodi append' =
     (case get_base_user_path toKodi (kodiBase toKodi) of
        None \<Rightarrow> Inl undefined_behaviour
      | Some str \<Rightarrow> Inr (append_path TARGET_WINDOWS str append'))"

subsection \<open>Settings accessors\<close>

text \<open>
  The header has accessors for four types: string, \<^verbatim>\<open>int\<close>, \<^verbatim>\<open>bool\<close> and
  \<^verbatim>\<open>float\<close>. A checked get returns the host's flag and the caller's variable
  afterwards. For a string the header copies the host's buffer into the variable only
  when the buffer is not null and the flag is set; for the other types the host writes
  the variable itself.
\<close>

definition CheckSettingString ::
  "AddonToKodiFuncTable_Addon \<Rightarrow> string \<Rightarrow> string \<Rightarrow> bool \<times> string" where
  "CheckSettingString toKodi settingName settingValue =
     (let (ret, buffer) = get_setting_string toKodi (kodiBase toKodi) (c_str settingName) None
      in case buffer of
           Some b \<Rightarrow> (ret, if ret then b else settingValue)
         | None \<Rightarrow> (ret, settingValue))"

definition GetSettingString :: "AddonToKodiFuncTable_Addon \<Rightarrow> string \<Rightarrow> string" where
  "GetSettingString toKodi settingName = snd (CheckSettingString toKodi settingName [])"

definition CheckSettingInt ::
  "AddonToKodiFuncTable_Addon \<Rightarrow> string \<Rightarrow> c_int \<Rightarrow> bool \<times> c_int" where
  "CheckSettingInt toKodi settingName settingValue =
     get_setting_int toKodi (kodiBase toKodi) (c_str settingName) settingValue"

definition GetSettingInt :: "AddonToKodiFuncTable_Addon \<Rightarrow> string \<Rightarrow> c_int" where
  "GetSettingInt toKodi settingName = snd (CheckSettingInt toKodi settingName 0)"

definition CheckSettingBoolean ::
  "AddonToKodiFuncTable_Addon \<Rightarrow> string \<Rightarrow> bool \<Rightarrow> bool \<times> bool" where
  "CheckSettingBoolean toKodi settingName settingValue =
     get_setting_bool toKodi (kodiBase toKodi) (c_str settingName) settingValue"

definition GetSettingBoolean :: "AddonToKodiFuncTable_Addon \<Rightarrow> string \<Rightarrow> bool" where
  "GetSettingBoolean toKodi settingName = snd (CheckSettingBoolean toKodi settingName False)"

definition CheckSettingFloat ::
  "AddonToKodiFuncTable_Addon \<Rightarrow> string \<Rightarrow> c_float \<Rightarrow> bool \<times> c_float" where
  "CheckSettingFloat toKodi settingName settingValue =
     get_setting_float toKodi (kodiBase toKodi) (c_str settingName) settingValue"

definition GetSettingFloat :: "AddonToKodiFuncTable_Addon \<Rightarrow> string \<Rightarrow> c_float" where
  "GetSettingFloat toKodi settingName = snd (CheckSettingFloat toKodi settingName 0)"

subsection \<open>The structure handle \<^verbatim>\<open>CStructHdl\<close>\<close>

text \<open>
  The memory that holds the plain \<^verbatim>\<open>C_STRUCT\<close> records: \<open>cells\<close> maps the address of
  every live record to its content, and \<^verbatim>\<open>new\<close> hands out \<open>next_addr\<close>, an address
  above all that were handed out before.
\<close>

record 'c struct_store =
  cells :: "addr \<rightharpoonup> 'c"
  next_addr :: addr

record CStructHdl =
  m_cStructure :: "addr option"
  m_owner :: bool

text \<open>\<^verbatim>\<open>new C_STRUCT(v)\<close>.\<close>

definition new_struct :: "'c struct_store \<Rightarrow> 'c \<Rightarrow> addr \<times> 'c struct_store" where
  "new_struct st v =
     (next_addr st,
      st\<lparr>cells := (cells st)(next_addr st \<mapsto> v), next_addr := Suc (next_addr st)\<rparr>)"

text \<open>
  \<^verbatim>\<open>delete p\<close>: nothing for the null pointer, undefined for a pointer to no live record.
\<close>

definition delete_struct :: "'c struct_store \<Rightarrow> addr option \<Rightarrow> error + 'c struct_store" where
  "delete_struct st p =
     (case p of
        None \<Rightarrow> Inr st
      | Some a \<Rightarrow>
          if a \<in> dom (cells st) then Inr (st\<lparr>cells := (cells st)(a := None)\<rparr>)
          else Inl undefined_behaviour)"

text \<open>\<^verbatim>\<open>*p\<close> for a \<^verbatim>\<open>C_STRUCT* p\<close>.\<close>

definition read_struct :: "'c struct_store \<Rightarrow> addr option \<Rightarrow> error + 'c" where
  "read_struct st p =
     (case p of
        None \<Rightarrow> Inl undefined_behaviour
      | Some a \<Rightarrow> (case cells st a of None \<Rightarrow> Inl undefined_behaviour | Some v \<Rightarrow> Inr v))"

text \<open>
  The four constructors. \<open>C_STRUCT_init\<close> is the value-initialised record of
  \<^verbatim>\<open>new C_STRUCT()\<close>. The constructor from a non-const pointer keeps the pointer and
  leaves \<open>m_owner\<close> at its default \<open>false\<close>; its \<^verbatim>\<open>assert\<close> refuses the null pointer.
\<close>

definition CStructHdl_default ::
  "'c \<Rightarrow> 'c struct_store \<Rightarrow> CStructHdl \<times> 'c struct_store" where
  "CStructHdl_default C_STRUCT_init st =
     (let (a, st') = new_struct st C_STRUCT_init
      in (\<lparr>m_cStructure = Some a, m_owner = True\<rparr>, st'))"

definition CStructHdl_copy ::
  "CStructHdl \<Rightarrow> 'c struct_store \<Rightarrow> error + CStructHdl \<times> 'c struct_store" where
  "CStructHdl_copy cppClass st =
     (case read_struct st (m_cStructure cppClass) of
        Inl e \<Rightarrow> Inl e
      | Inr v \<Rightarrow>
          (let (a, st') = new_struct st v
           in Inr (\<lparr>m_cStructure = Some a, m_owner = True\<rparr>, st')))"

definition CStructHdl_const_ptr ::
  "addr option \<Rightarrow> 'c struct_store \<Rightarrow> error + CStructHdl \<times> 'c struct_store" where
  "CStructHdl_const_ptr cStructure st =
     (case read_struct st cStructure of
        Inl e \<Rightarrow> Inl e
      | Inr v \<Rightarrow>
          (let (a, st') = new_struct st v
           in Inr (\<lparr>m_cStructure = Some a, m_owner = True\<rparr>, st')))"

definition CStructHdl_ptr ::
  "addr option \<Rightarrow> 'c struct_store \<Rightarrow> error + CStructHdl \<times> 'c struct_store" where
  "CStructHdl_ptr cStructure st =
     (if cStructure = None then Inl assertion_failure
      else Inr (\<lparr>m_cStructure = cStructure, m_owner = False\<rparr>, st))"

text \<open>
  \<^verbatim>\<open>operator=(const CStructHdl& right)\<close>, on the wrapper \<open>this\<close>. Its
  \<^verbatim>\<open>assert(&right.m_cStructure)\<close> tests the address of a member and cannot fail. In the
  aliasing branch \<^verbatim>\<open>memcpy\<close> reads the source record and overwrites the aliased one.
  In the other branch the owned record is deleted first and the source record is read
  afterwards, when the copy is constructed.
\<close>

definition CStructHdl_assign ::
  "CStructHdl \<Rightarrow> CStructHdl \<Rightarrow> 'c struct_store \<Rightarrow> error + CStructHdl \<times> 'c struct_store" where
  "CStructHdl_assign this right st =
     (if m_cStructure this \<noteq> None \<and> \<not> m_owner this then
        (case read_struct st (m_cStructure right) of
           Inl e \<Rightarrow> Inl e
         | Inr v \<Rightarrow>
             (case m_cStructure this of
                None \<Rightarrow> Inl undefined_behaviour
              | Some d \<Rightarrow>
                  if d \<in> dom (cells st) then Inr (this, st\<lparr>cells := (cells st)(d \<mapsto> v)\<rparr>)
                  else Inl undefined_behaviour))
      else
        (case (if m_owner this then delete_struct st (m_cStructure this) else Inr st) of
           Inl e \<Rightarrow> Inl e
         | Inr st1 \<Rightarrow>
             (case read_struct st1 (m_cStructure right) of
                Inl e \<Rightarrow> Inl e
              | Inr v \<Rightarrow>
                  (let (a, st2) = new_struct st1 v
                   in Inr (this\<lparr>m_owner := True, m_cStructure := Some a\<rparr>, st2)))))"

subsection \<open>Instances and the global interface\<close>

text \<open>
  An \<^verbatim>\<open>IAddonInstance\<close> object. \<open>dyn_class\<close> stands for the object's dynamic class,
  which selects the \<^verbatim>\<open>CreateInstance\<close> a virtual call reaches.
\<close>

record IAddonInstance =
  dyn_class :: nat
  m_type :: c_int
  m_kodiVersion :: string
  m_id :: string

text \<open>
  Modelled from the spec: \<^verbatim>\<open>AddonGlobalInterface\<close> is declared in
  \<^verbatim>\<open>c-api/addon_base.h\<close>; these are the fields the dispatch functions read.
\<close>

record AddonGlobalInterface =
  libBasePath :: string
  addonBase :: KODI_HANDLE
  globalSingleInstance :: KODI_HANDLE
  firstKodiInstance :: KODI_HANDLE

text \<open>
  What the dispatch functions and the hooks act on: the structure behind the static
  \<^verbatim>\<open>m_interface\<close> and the live instance objects by address.
\<close>

record addon_world =
  m_interface :: AddonGlobalInterface
  instances :: "addr \<rightharpoonup> IAddonInstance"

text \<open>
  A virtual \<^verbatim>\<open>CreateInstance\<close> takes the instance type, the identifier, the host's
  handle, the version and the present content of the reference \<^verbatim>\<open>addonInstance\<close>; it
  returns its status, the content of \<^verbatim>\<open>addonInstance\<close> afterwards and the world it
  leaves, or ends in an error. \<^verbatim>\<open>DestroyInstance\<close> returns nothing.
\<close>

type_synonym CreateInstance_hook =
  "c_int \<Rightarrow> string \<Rightarrow> KODI_HANDLE \<Rightarrow> string \<Rightarrow> KODI_HANDLE \<Rightarrow> addon_world
     \<Rightarrow> error + (ADDON_STATUS \<times> KODI_HANDLE \<times> addon_world)"

type_synonym DestroyInstance_hook =
  "c_int \<Rightarrow> string \<Rightarrow> KODI_HANDLE \<Rightarrow> addon_world \<Rightarrow> error + addon_world"

text \<open>
  The virtual tables of a loaded add-on: the two hooks of the class of its base object
  and, for each dynamic class of instance objects, its \<^verbatim>\<open>CreateInstance\<close>.
\<close>

record addon_classes =
  base_CreateInstance :: CreateInstance_hook
  base_DestroyInstance :: DestroyInstance_hook
  instance_CreateInstance :: "nat \<Rightarrow> CreateInstance_hook"

text \<open>The calls a dispatch function makes, in order.\<close>

datatype event =
    call_parent_CreateInstance addr
  | call_base_CreateInstance
  | call_base_DestroyInstance c_int string KODI_HANDLE
  | delete_instance addr

subsection \<open>The default hooks\<close>

definition IAddonInstance_CreateInstance :: CreateInstance_hook where
  "IAddonInstance_CreateInstance instanceType instanceID instance version addonInstance w =
     Inr (ADDON_STATUS_NOT_IMPLEMENTED, addonInstance, w)"

text \<open>
  \<^verbatim>\<open>CAddonBase::CreateInstance\<close>: the three tests are joined by \<^verbatim>\<open>&&\<close>, so the type
  tag of the single instance is read only after the first two have passed.
\<close>

definition CAddonBase_CreateInstance :: CreateInstance_hook where
  "CAddonBase_CreateInstance instanceType instanceID instance version addonInstance w =
     (if firstKodiInstance (m_interface w) = instance then
        (case globalSingleInstance (m_interface w) of
           None \<Rightarrow> Inr (ADDON_STATUS_UNKNOWN, addonInstance, w)
         | Some g \<Rightarrow>
             (case instances w g of
                None \<Rightarrow> Inl undefined_behaviour
              | Some obj \<Rightarrow>
                  if m_type obj = instanceType
                  then Inr (ADDON_STATUS_OK, globalSingleInstance (m_interface w), w)
                  else Inr (ADDON_STATUS_UNKNOWN, addonInstance, w)))
      else Inr (ADDON_STATUS_UNKNOWN, addonInstance, w))"

definition CAddonBase_DestroyInstance :: DestroyInstance_hook where
  "CAddonBase_DestroyInstance instanceType instanceID addonInstance w = Inr w"

subsection \<open>\<^verbatim>\<open>ADDONBASE_CreateInstance\<close>\<close>

text \<open>
  The parent's turn: without a parent the status stays \<^verbatim>\<open>ADDON_STATUS_NOT_IMPLEMENTED\<close>;
  with one, its virtual \<^verbatim>\<open>CreateInstance\<close> is called through the pointer.
\<close>

definition create_via_parent ::
  "addon_classes \<Rightarrow> c_int \<Rightarrow> string \<Rightarrow> KODI_HANDLE \<Rightarrow> string \<Rightarrow> KODI_HANDLE \<Rightarrow> KODI_HANDLE
     \<Rightarrow> addon_world \<Rightarrow> event list \<times> (error + (ADDON_STATUS \<times> KODI_HANDLE \<times> addon_world))" where
  "create_via_parent V instanceType instanceID instance version addonInstance parent w =
     (case parent of
        None \<Rightarrow> ([], Inr (ADDON_STATUS_NOT_IMPLEMENTED, addonInstance, w))
      | Some p \<Rightarrow>
          (case instances w p of
             None \<Rightarrow> ([], Inl undefined_behaviour)
           | Some pobj \<Rightarrow>
               ([call_parent_CreateInstance p],
                instance_CreateInstance V (dyn_class pobj)
                  instanceType instanceID instance version addonInstance w)))"

text \<open>
  The base object's turn, taken only on \<^verbatim>\<open>ADDON_STATUS_NOT_IMPLEMENTED\<close>. \<open>base\<close> is
  the pointer read from the interface at the start of the call.
\<close>

definition create_via_base ::
  "addon_classes \<Rightarrow> KODI_HANDLE \<Rightarrow> c_int \<Rightarrow> string \<Rightarrow> KODI_HANDLE \<Rightarrow> string
     \<Rightarrow> ADDON_STATUS \<times> KODI_HANDLE \<times> addon_world
     \<Rightarrow> event list \<times> (error + (ADDON_STATUS \<times> KODI_HANDLE \<times> addon_world))" where
  "create_via_base V base instanceType instanceID instance version r =
     (case r of (status, addonInstance, w) \<Rightarrow>
        if status = ADDON_STATUS_NOT_IMPLEMENTED then
          (case base of
             None \<Rightarrow> ([], Inl undefined_behaviour)
           | Some b \<Rightarrow>
               ([call_base_CreateInstance],
                base_CreateInstance V instanceType instanceID instance version addonInstance w))
        else ([], Inr (status, addonInstance, w)))"

text \<open>Both turns: the part of the function before its checks.\<close>

definition create_hooks ::
  "addon_classes \<Rightarrow> c_int \<Rightarrow> string \<Rightarrow> KODI_HANDLE \<Rightarrow> string \<Rightarrow> KODI_HANDLE \<Rightarrow> KODI_HANDLE
     \<Rightarrow> addon_world \<Rightarrow> event list \<times> (error + (ADDON_STATUS \<times> KODI_HANDLE \<times> addon_world))" where
  "create_hooks V instanceType instanceID instance version addonInstance parent w =
     (let base = addonBase (m_interface w)
      in case create_via_parent V instanceType instanceID instance version addonInstance parent w of
           (tr1, Inl e) \<Rightarrow> (tr1, Inl e)
         | (tr1, Inr r1) \<Rightarrow>
             (case create_via_base V base instanceType instanceID instance version r1 of
                (tr2, res) \<Rightarrow> (tr1 @ tr2, res)))"

text \<open>
  The checks on \<^verbatim>\<open>*addonInstance\<close> and the store of the identifier, whatever the
  status is.
\<close>

definition check_and_stamp ::
  "c_int \<Rightarrow> string \<Rightarrow> ADDON_STATUS \<times> KODI_HANDLE \<times> addon_world
     \<Rightarrow> error + (ADDON_STATUS \<times> KODI_HANDLE \<times> addon_world)" where
  "check_and_stamp instanceType instanceID r =
     (case r of (status, addonInstance, w) \<Rightarrow>
        (case addonInstance of
           None \<Rightarrow>
             Inl (logic_error
               ''kodi::addon::CAddonBase CreateInstance returns a empty instance pointer!'')
         | Some a \<Rightarrow>
             (case instances w a of
                None \<Rightarrow> Inl undefined_behaviour
              | Some obj \<Rightarrow>
                  if m_type obj \<noteq> instanceType then
                    Inl (logic_error
                      ''kodi::addon::CAddonBase CreateInstance with difference on given and returned instance type!'')
                  else
                    Inr (status, addonInstance,
                         w\<lparr>instances := (instances w)(a \<mapsto> obj\<lparr>m_id := instanceID\<rparr>)\<rparr>))))"

definition ADDONBASE_CreateInstance ::
  "addon_classes \<Rightarrow> c_int \<Rightarrow> string \<Rightarrow> KODI_HANDLE \<Rightarrow> string \<Rightarrow> KODI_HANDLE \<Rightarrow> KODI_HANDLE
     \<Rightarrow> addon_world \<Rightarrow> event list \<times> (error + (ADDON_STATUS \<times> KODI_HANDLE \<times> addon_world))" where
  "ADDONBASE_CreateInstance V instanceType instanceID instance version addonInstance parent w =
     (case create_hooks V instanceType instanceID instance version addonInstance parent w of
        (tr, Inl e) \<Rightarrow> (tr, Inl e)
      | (tr, Inr r) \<Rightarrow> (tr, check_and_stamp instanceType instanceID r))"

subsection \<open>\<^verbatim>\<open>ADDONBASE_DestroyInstance\<close>\<close>

text \<open>
  \<^verbatim>\<open>delete\<close> of the instance after the hook: undefined when the hook has already
  destroyed the object.
\<close>

definition ADDONBASE_DestroyInstance ::
  "addon_classes \<Rightarrow> c_int \<Rightarrow> KODI_HANDLE \<Rightarrow> addon_world \<Rightarrow> event list \<times> (error + addon_world)" where
  "ADDONBASE_DestroyInstance V instanceType instance w =
     (let base = addonBase (m_interface w)
      in if globalSingleInstance (m_interface w) = None \<and> instance \<noteq> base then
           (case instance of
              None \<Rightarrow> ([], Inl undefined_behaviour)
            | Some a \<Rightarrow>
                (case instances w a of
                   None \<Rightarrow> ([], Inl undefined_behaviour)
                 | Some obj \<Rightarrow>
                     if m_type obj = instanceType then
                       (case base of
                          None \<Rightarrow> ([], Inl undefined_behaviour)
                        | Some b \<Rightarrow>
                            (case base_DestroyInstance V instanceType (m_id obj) instance w of
                               Inl e \<Rightarrow>
                                 ([call_base_DestroyInstance instanceType (m_id obj) instance],
                                  Inl e)
                             | Inr w' \<Rightarrow>
                                 if a \<in> dom (instances w') then
                                   ([call_base_DestroyInstance instanceType (m_id obj) instance,
                                     delete_instance a],
                                    Inr (w'\<lparr>instances := (instances w')(a := None)\<rparr>))
                                 else
                                   ([call_base_DestroyInstance instanceType (m_id obj) instance],
                                    Inl undefined_behaviour)))
                     else
                       ([], Inl (logic_error
                          ''kodi::addon::CAddonBase DestroyInstance called with difference on given and present instance type!''))))
         else ([], Inr w))"

subsection \<open>Reading an outcome\<close>

text \<open>A hook has declined when it returned \<^verbatim>\<open>ADDON_STATUS_NOT_IMPLEMENTED\<close>.\<close>

definition declined :: "error + (ADDON_STATUS \<times> KODI_HANDLE \<times> addon_world) \<Rightarrow> bool" where
  "declined r =
     (case r of
        Inl e \<Rightarrow> False
      | Inr (status, addonInstance, w) \<Rightarrow> status = ADDON_STATUS_NOT_IMPLEMENTED)"

section \<open>Concrete hosts\<close>

text \<open>
  A host that knows the settings \<open>name\<close>, \<open>port\<close>, \<open>on\<close> and \<open>gain\<close>, and leaves
  the output cell of a typed setting as it was when it reports failure.
\<close>

definition example_host :: AddonToKodiFuncTable_Addon where
  "example_host =
     \<lparr> kodiBase = Some 1,
       get_addon_path = (\<lambda>_. Some ''/opt/addon''),
       get_base_user_path = (\<lambda>_. Some ''/home/user''),
       get_setting_string =
         (\<lambda>_ n _. if n = ''name'' then (True, Some ''kodi'') else (False, Some ''junk'')),
       get_setting_int = (\<lambda>_ n v. if n = ''port'' then (True, 8080) else (False, v)),
       get_setting_bool = (\<lambda>_ n v. if n = ''on'' then (True, True) else (False, v)),
       get_setting_float =
         (\<lambda>_ n v. if n = ''gain'' then (True, 0x3F800000) else (False, v)) \<rparr>"

text \<open>A host that stores into the output cell and then reports failure.\<close>

definition overwriting_host :: AddonToKodiFuncTable_Addon where
  "overwriting_host =
     \<lparr> kodiBase = Some 1,
       get_addon_path = (\<lambda>_. Some ''/opt/addon''),
       get_base_user_path = (\<lambda>_. Some ''/home/user''),
       get_setting_string = (\<lambda>_ _ _. (False, Some ''junk'')),
       get_setting_int = (\<lambda>_ _ _. (False, 5)),
       get_setting_bool = (\<lambda>_ _ _. (False, True)),
       get_setting_float = (\<lambda>_ _ _. (False, 5)) \<rparr>"

section \<open>A concrete add-on\<close>

text \<open>
  The base hook of an add-on with several instance types, after the example in the
  header's documentation: type \<open>18\<close> is created with \<^verbatim>\<open>ADDON_STATUS_OK\<close>, type \<open>19\<close>
  is created but reported with \<^verbatim>\<open>ADDON_STATUS_NEED_SETTINGS\<close>, type \<open>20\<close> is answered
  with an object of type \<open>18\<close>, and any other type falls through to
  \<^verbatim>\<open>return ADDON_STATUS_UNKNOWN\<close> with \<^verbatim>\<open>addonInstance\<close> untouched.
\<close>

definition example_CreateInstance :: CreateInstance_hook where
  "example_CreateInstance instanceType instanceID instance version addonInstance w =
     (if instanceType = 18 then
        Inr (ADDON_STATUS_OK, Some 7,
             w\<lparr>instances := (instances w)(7 \<mapsto>
                 \<lparr>dyn_class = 0, m_type = 18, m_kodiVersion = version, m_id = []\<rparr>)\<rparr>)
      else if instanceType = 19 then
        Inr (ADDON_STATUS_NEED_SETTINGS, Some 8,
             w\<lparr>instances := (instances w)(8 \<mapsto>
                 \<lparr>dyn_class = 0, m_type = 19, m_kodiVersion = version, m_id = []\<rparr>)\<rparr>)
      else if instanceType = 20 then
        Inr (ADDON_STATUS_OK, Some 9,
             w\<lparr>instances := (instances w)(9 \<mapsto>
                 \<lparr>dyn_class = 0, m_type = 18, m_kodiVersion = version, m_id = []\<rparr>)\<rparr>)
      else Inr (ADDON_STATUS_UNKNOWN, addonInstance, w))"

text \<open>
  Instance classes: class \<open>1\<close> creates the sub-instances of type \<open>30\<close> itself and
  declines everything else; every other class keeps the default of
  \<^verbatim>\<open>IAddonInstance\<close>.
\<close>

definition example_instance_CreateInstance :: "nat \<Rightarrow> CreateInstance_hook" where
  "example_instance_CreateInstance c instanceType instanceID instance version addonInstance w =
     (if c = 1 \<and> instanceType = 30 then
        Inr (ADDON_STATUS_OK, Some 11,
             w\<lparr>instances := (instances w)(11 \<mapsto>
                 \<lparr>dyn_class = 0, m_type = 30, m_kodiVersion = version, m_id = []\<rparr>)\<rparr>)
      else IAddonInstance_CreateInstance instanceType instanceID instance version addonInstance w)"

definition example_classes :: addon_classes where
  "example_classes =
     \<lparr> base_CreateInstance = example_CreateInstance,
       base_DestroyInstance = CAddonBase_DestroyInstance,
       instance_CreateInstance = example_instance_CreateInstance \<rparr>"

text \<open>An add-on that overrides nothing.\<close>

definition default_classes :: addon_classes where
  "default_classes =
     \<lparr> base_CreateInstance = CAddonBase_CreateInstance,
       base_DestroyInstance = CAddonBase_DestroyInstance,
       instance_CreateInstance = (\<lambda>c. IAddonInstance_CreateInstance) \<rparr>"

text \<open>
  A world in multi-instance mode: the base object at address \<open>1\<close>, no global single
  instance, and one live instance of class \<open>1\<close> and type \<open>18\<close> at address \<open>5\<close>.
\<close>

definition example_instance :: IAddonInstance where
  "example_instance =
     \<lparr>dyn_class = 1, m_type = 18, m_kodiVersion = ''1.0.0'', m_id = ''saver''\<rparr>"

definition example_world :: addon_world where
  "example_world =
     \<lparr> m_interface =
         \<lparr> libBasePath = ''/opt/addon/lib'', addonBase = Some 1,
           globalSingleInstance = None, firstKodiInstance = Some 100 \<rparr>,
       instances = [5 \<mapsto> example_instance] \<rparr>"

text \<open>
  A world in single-default-instance mode: the global single instance, of type \<open>18\<close>,
  at address \<open>2\<close>, recorded at load time with the host handle \<open>100\<close>.
\<close>

definition single_instance :: IAddonInstance where
  "single_instance =
     \<lparr>dyn_class = 0, m_type = 18, m_kodiVersion = ''1.0.0'', m_id = []\<rparr>"

definition single_world :: addon_world where
  "single_world =
     \<lparr> m_interface =
         \<lparr> libBasePath = ''/opt/addon/lib'', addonBase = Some 1,
           globalSingleInstance = Some 2, firstKodiInstance = Some 100 \<rparr>,
       instances = [2 \<mapsto> single_instance] \<rparr>"

text \<open>
  The world right after the add-on was loaded in multi-instance mode: the base object
  at address \<open>1\<close> and no instance yet.
\<close>

definition fresh_world :: addon_world where
  "fresh_world =
     \<lparr> m_interface =
         \<lparr> libBasePath = ''/opt/addon/lib'', addonBase = Some 1,
           globalSingleInstance = None, firstKodiInstance = Some 100 \<rparr>,
       instances = Map.empty \<rparr>"

section \<open>A concrete structure handle\<close>

text \<open>The record of the header's own example, \<^verbatim>\<open>C_SAMPLE_DATA\<close>.\<close>

record C_SAMPLE_DATA =
  iUniqueId :: c_uint

text \<open>
  The caller's record lives at address \<open>0\<close>. \<open>owner_hdl\<close> is the wrapper that the
  constructor from a const pointer makes of it, with its own copy at address \<open>1\<close>;
  \<open>alias_hdl\<close> is the wrapper that the constructor from a non-const pointer makes.
\<close>

definition caller_store :: "C_SAMPLE_DATA struct_store" where
  "caller_store = \<lparr> cells = [0 \<mapsto> \<lparr>iUniqueId = 10\<rparr>], next_addr = 1 \<rparr>"

definition sample_store :: "C_SAMPLE_DATA struct_store" where
  "sample_store =
     \<lparr> cells = [0 \<mapsto> \<lparr>iUniqueId = 10\<rparr>, 1 \<mapsto> \<lparr>iUniqueId = 10\<rparr>], next_addr = 2 \<rparr>"

definition alias_hdl :: CStructHdl where
  "alias_hdl = \<lparr>m_cStructure = Some 0, m_owner = False\<rparr>"

definition owner_hdl :: CStructHdl where
  "owner_hdl = \<lparr>m_cStructure = Some 1, m_owner = True\<rparr>"

section \<open>Status labels\<close>

text \<open>
  Claim C5. \<^verbatim>\<open>TranslateAddonStatus\<close> is total: each of the seven defined status codes
  has its fixed label, no label is empty, and every value of the enumeration type
  outside the seven codes is labelled \<open>Unknown\<close>.
\<close>

theorem TranslateAddonStatus_total:
  "TranslateAddonStatus ADDON_STATUS_OK = ''OK'' \<and>
   TranslateAddonStatus ADDON_STATUS_LOST_CONNECTION = ''Lost Connection'' \<and>
   TranslateAddonStatus ADDON_STATUS_NEED_RESTART = ''Need Restart'' \<and>
   TranslateAddonStatus ADDON_STATUS_NEED_SETTINGS = ''Need Settings'' \<and>
   TranslateAddonStatus ADDON_STATUS_UNKNOWN = ''Unknown error'' \<and>
   TranslateAddonStatus ADDON_STATUS_PERMANENT_FAILURE = ''Permanent failure'' \<and>
   TranslateAddonStatus ADDON_STATUS_NOT_IMPLEMENTED = ''Not implemented'' \<and>
   (\<forall>n. TranslateAddonStatus (ADDON_STATUS_undefined n) = ''Unknown'') \<and>
   (\<forall>s. TranslateAddonStatus s \<noteq> [])"
proof -
  have "TranslateAddonStatus s \<noteq> []" for s
    by (cases s) simp_all
  then show ?thesis by simp
qed

section \<open>Paths\<close>

text \<open>
  Claim C7. \<^verbatim>\<open>GetAddonPath\<close> and \<^verbatim>\<open>GetBaseUserPath\<close>, for the path the host
  supplies and every \<open>append\<close> argument: an empty argument gives the host's path
  unchanged; an argument that starts with \<open>/\<close> or a backslash is concatenated directly;
  any other argument is concatenated after the platform's separator (a backslash under
  \<^verbatim>\<open>TARGET_WINDOWS\<close>, \<open>/\<close> otherwise).
\<close>

theorem path_accessors_append:
  assumes "get_addon_path toKodi (kodiBase toKodi) = Some p"
    and "get_base_user_path toKodi (kodiBase toKodi) = Some q"
  shows "GetAddonPath W toKodi a =
           Inr (if a = [] then p
                else if hd a = CHR ''/'' \<or> hd a = CHR 0x5C then p @ a
                else p @ (if W then [CHR 0x5C] else ''/'') @ a) \<and>
         GetBaseUserPath W toKodi a =
           Inr (if a = [] then q
                else if hd a = CHR ''/'' \<or> hd a = CHR 0x5C then q @ a
                else q @ (if W then [CHR 0x5C] else ''/'') @ a)"
  using assms by (simp add: GetAddonPath_def GetBaseUserPath_def append_path_def)

theorem path_accessors_append_witness:
  "GetAddonPath False example_host '''' = Inr ''/opt/addon'' \<and>
   GetAddonPath False example_host ''resources'' = Inr ''/opt/addon/resources'' \<and>
   GetAddonPath True example_host ''resources'' =
     Inr (''/opt/addon'' @ [CHR 0x5C] @ ''resources'') \<and>
   GetAddonPath False example_host ''/resources'' = Inr ''/opt/addon/resources'' \<and>
   GetBaseUserPath True example_host (CHR 0x5C # ''cfg'') =
     Inr (''/home/user'' @ [CHR 0x5C] @ ''cfg'') \<and>
   GetBaseUserPath False example_host ''cfg'' = Inr ''/home/user/cfg''"
proof -
  have a: "get_addon_path example_host (kodiBase example_host) = Some ''/opt/addon''"
    by (simp add: example_host_def)
  have b: "get_base_user_path example_host (kodiBase example_host) = Some ''/home/user''"
    by (simp add: example_host_def)
  note t = path_accessors_append [OF a b]
  show ?thesis
    using t [of False "''''"] t [of False "''resources''"] t [of True "''resources''"]
      t [of False "''/resources''"] t [of True "CHR 0x5C # ''cfg''"] t [of False "''cfg''"]
    by simp
qed

section \<open>Settings\<close>

text \<open>
  Claim C6, as stated, fails: the convenience gets of the numeric types never look at
  the flag, so with a host that stores into the output cell and then reports failure
  \<^verbatim>\<open>GetSettingInt\<close> returns the stored value and not the default \<open>0\<close>. (The header
  also has no checked get or convenience get for \<^verbatim>\<open>unsigned\<close> at all.)
\<close>

theorem convenience_get_ignores_flag_counterexample:
  "\<not> fst (CheckSettingInt overwriting_host ''port'' 0) \<and>
   GetSettingInt overwriting_host ''port'' = 5 \<and>
   GetSettingInt overwriting_host ''port'' \<noteq> 0"
  by (simp add: CheckSettingInt_def GetSettingInt_def overwriting_host_def)

text \<open>
  Claim C6, amended. The header has a checked get and a convenience get for four
  types, string, \<^verbatim>\<open>int\<close>, \<^verbatim>\<open>bool\<close> and \<^verbatim>\<open>float\<close>, and none for \<^verbatim>\<open>unsigned\<close>.
  For every setting name and every content of the caller's variable, the checked get
  returns the host's flag together with the variable as the call leaves it: for a
  string the host's buffer when the flag is set and a buffer was handed back, and the
  variable untouched otherwise; for \<^verbatim>\<open>int\<close>, \<^verbatim>\<open>bool\<close> and \<^verbatim>\<open>float\<close> whatever the
  host left in the variable. The convenience get starts the variable at the type's
  default (empty string, \<open>0\<close>, \<open>false\<close>, \<open>0.0f\<close>) and returns it after the call.
  For a string that is the default whenever the host reports failure or hands back no
  buffer, and the host's buffer whenever it reports success. For \<^verbatim>\<open>int\<close>, \<^verbatim>\<open>bool\<close>
  and \<^verbatim>\<open>float\<close> it is the content the host left in the cell that started at the
  default: the host-filled value on success, and the default when the host left the
  cell as it was.
\<close>

theorem settings_getters:
  assumes "get_setting_string toKodi (kodiBase toKodi) (c_str n) None = (rs, bs)"
    and "get_setting_int toKodi (kodiBase toKodi) (c_str n) iv = (ri, vi)"
    and "get_setting_int toKodi (kodiBase toKodi) (c_str n) 0 = (ri0, vi0)"
    and "get_setting_bool toKodi (kodiBase toKodi) (c_str n) bv = (rb, vb)"
    and "get_setting_bool toKodi (kodiBase toKodi) (c_str n) False = (rb0, vb0)"
    and "get_setting_float toKodi (kodiBase toKodi) (c_str n) fv = (rf, vf)"
    and "get_setting_float toKodi (kodiBase toKodi) (c_str n) 0 = (rf0, vf0)"
  shows "CheckSettingString toKodi n sv =
           (rs, if rs then (case bs of Some b \<Rightarrow> b | None \<Rightarrow> sv) else sv) \<and>
         GetSettingString toKodi n =
           (if rs then (case bs of Some b \<Rightarrow> b | None \<Rightarrow> []) else []) \<and>
         CheckSettingInt toKodi n iv = (ri, vi) \<and> GetSettingInt toKodi n = vi0 \<and>
         CheckSettingBoolean toKodi n bv = (rb, vb) \<and> GetSettingBoolean toKodi n = vb0 \<and>
         CheckSettingFloat toKodi n fv = (rf, vf) \<and> GetSettingFloat toKodi n = vf0"
  using assms
  by (simp add: CheckSettingString_def GetSettingString_def CheckSettingInt_def
      GetSettingInt_def CheckSettingBoolean_def GetSettingBoolean_def
      CheckSettingFloat_def GetSettingFloat_def split: option.splits)

theorem settings_getters_witness:
  "CheckSettingString example_host ''port'' ''old'' = (False, ''old'') \<and>
   GetSettingString example_host ''port'' = [] \<and>
   CheckSettingInt example_host ''port'' 42 = (True, 8080) \<and>
   GetSettingInt example_host ''port'' = 8080 \<and>
   CheckSettingBoolean example_host ''port'' True = (False, True) \<and>
   GetSettingBoolean example_host ''port'' = False \<and>
   CheckSettingFloat example_host ''port'' 7 = (False, 7) \<and>
   GetSettingFloat example_host ''port'' = 0 \<and>
   CheckSettingString example_host ''name'' ''old'' = (True, ''kodi'') \<and>
   GetSettingString example_host ''name'' = ''kodi'' \<and>
   CheckSettingInt example_host ''name'' 42 = (False, 42) \<and>
   GetSettingInt example_host ''name'' = 0"
proof -
  have s: "get_setting_string example_host (kodiBase example_host) (c_str ''port'') None =
      (False, Some ''junk'')"
    and i: "get_setting_int example_host (kodiBase example_host) (c_str ''port'') 42 =
      (True, 8080)"
    and i0: "get_setting_int example_host (kodiBase example_host) (c_str ''port'') 0 =
      (True, 8080)"
    and b: "get_setting_bool example_host (kodiBase example_host) (c_str ''port'') True =
      (False, True)"
    and b0: "get_setting_bool example_host (kodiBase example_host) (c_str ''port'') False =
      (False, False)"
    and f: "get_setting_float example_host (kodiBase example_host) (c_str ''port'') 7 =
      (False, 7)"
    and f0: "get_setting_float example_host (kodiBase example_host) (c_str ''port'') 0 =
      (False, 0)"
    by (simp_all add: example_host_def c_str_def)
  have s': "get_setting_string example_host (kodiBase example_host) (c_str ''name'') None =
      (True, Some ''kodi'')"
    and i': "get_setting_int example_host (kodiBase example_host) (c_str ''name'') 42 =
      (False, 42)"
    and i0': "get_setting_int example_host (kodiBase example_host) (c_str ''name'') 0 =
      (False, 0)"
    and b': "get_setting_bool example_host (kodiBase example_host) (c_str ''name'') True =
      (False, True)"
    and b0': "get_setting_bool example_host (kodiBase example_host) (c_str ''name'') False =
      (False, False)"
    and f': "get_setting_float example_host (kodiBase example_host) (c_str ''name'') 7 =
      (False, 7)"
    and f0': "get_setting_float example_host (kodiBase example_host) (c_str ''name'') 0 =
      (False, 0)"
    by (simp_all add: example_host_def c_str_def)
  show ?thesis
    using settings_getters [OF s i i0 b b0 f f0, of "''old''"]
      settings_getters [OF s' i' i0' b' b0' f' f0', of "''old''"]
    by simp
qed

section \<open>The typed settings view\<close>

text \<open>
  Claim C10. On a null underlying pointer \<^verbatim>\<open>empty\<close> is the only operation of
  \<^verbatim>\<open>CSettingValue\<close> that is defined: whenever \<^verbatim>\<open>empty()\<close> holds the stored pointer
  is null and each of \<^verbatim>\<open>GetString\<close>, \<^verbatim>\<open>GetInt\<close>, \<^verbatim>\<open>GetUInt\<close>, \<^verbatim>\<open>GetBoolean\<close> and
  \<^verbatim>\<open>GetFloat\<close> reads through it unchecked, which is undefined; so a typed getter has
  a value only when \<^verbatim>\<open>empty()\<close> is false.
\<close>

theorem CSettingValue_getters_need_pointer:
  fixes v :: CSettingValue
  assumes "empty_sv v"
  shows "m_settingValue v = None \<and>
         GetString v = Inl undefined_behaviour \<and>
         GetInt v = Inl undefined_behaviour \<and>
         GetUInt v = Inl undefined_behaviour \<and>
         GetBoolean v = Inl undefined_behaviour \<and>
         GetFloat v = Inl undefined_behaviour"
  using assms
  by (simp add: empty_sv_def GetString_def GetInt_def GetUInt_def GetBoolean_def GetFloat_def
      split: if_splits)

theorem CSettingValue_getters_need_pointer_witness:
  "empty_sv \<lparr>m_settingValue = None\<rparr> \<and>
   GetString \<lparr>m_settingValue = None\<rparr> = Inl undefined_behaviour \<and>
   GetInt \<lparr>m_settingValue = None\<rparr> = Inl undefined_behaviour \<and>
   GetUInt \<lparr>m_settingValue = None\<rparr> = Inl undefined_behaviour \<and>
   GetBoolean \<lparr>m_settingValue = None\<rparr> = Inl undefined_behaviour \<and>
   GetFloat \<lparr>m_settingValue = None\<rparr> = Inl undefined_behaviour"
proof -
  have e: "empty_sv \<lparr>m_settingValue = None\<rparr>"
    by (simp add: empty_sv_def)
  show ?thesis
    using e CSettingValue_getters_need_pointer [OF e] by simp
qed

section \<open>The structure handle\<close>

text \<open>
  Which constructor gives which mode: the wrapper from a non-const pointer aliases the
  caller's record and allocates nothing, the other three own a fresh record.
\<close>

lemma CStructHdl_ptr_aliases:
  "CStructHdl_ptr p st = Inr (this, st') \<Longrightarrow>
   p \<noteq> None \<and> m_cStructure this = p \<and> \<not> m_owner this \<and> st' = st"
  by (auto simp: CStructHdl_ptr_def split: if_splits)

lemma CStructHdl_owning_constructors:
  "m_owner (fst (CStructHdl_default c0 st))"
  "CStructHdl_copy other st = Inr (this, st') \<Longrightarrow> m_owner this"
  "CStructHdl_const_ptr p st = Inr (this, st') \<Longrightarrow> m_owner this"
  by (auto simp: CStructHdl_default_def CStructHdl_copy_def CStructHdl_const_ptr_def
      new_struct_def split: sum.splits prod.splits)

text \<open>
  Assignment to an aliasing wrapper overwrites the aliased record in place: the wrapper,
  and with it the wrapped address, stays as it is.
\<close>

lemma CStructHdl_assign_aliasing:
  assumes "m_cStructure this = Some d" and "\<not> m_owner this"
    and "cells st d = Some old"
    and "read_struct st (m_cStructure right) = Inr v"
  shows "CStructHdl_assign this right st = Inr (this, st\<lparr>cells := (cells st)(d \<mapsto> v)\<rparr>)"
  using assms by (simp add: CStructHdl_assign_def dom_def)

text \<open>
  Assignment to an owning wrapper from another record deletes the owned record and
  wraps a fresh copy of the source record.
\<close>

lemma CStructHdl_assign_owning:
  assumes "m_cStructure this = Some d" and "m_owner this"
    and "cells st d = Some old"
    and "m_cStructure right = Some s" and "s \<noteq> d" and "cells st s = Some v"
  shows "CStructHdl_assign this right st =
           Inr (\<lparr>m_cStructure = Some (next_addr st), m_owner = True\<rparr>,
                st\<lparr>cells := ((cells st)(d := None))(next_addr st \<mapsto> v),
                   next_addr := Suc (next_addr st)\<rparr>)"
  using assms
  by (simp add: CStructHdl_assign_def delete_struct_def read_struct_def new_struct_def dom_def)

text \<open>
  Assignment to an owning wrapper from its own record (the wrapper itself, or a wrapper
  that aliases its record): the record is deleted before the copy is made of it.
\<close>

lemma CStructHdl_assign_own_record:
  assumes "m_owner this" and "m_cStructure this = Some d" and "m_cStructure right = Some d"
  shows "CStructHdl_assign this right st = Inl undefined_behaviour"
  using assms
  by (simp add: CStructHdl_assign_def delete_struct_def read_struct_def)

text \<open>
  Claim C8 says that every assignment to an owning wrapper replaces the owned record by
  a fresh copy of the source record. The code does so for every source record but the
  wrapper's own: \<open>owner_hdl\<close>, made by the constructor from a const pointer, assigned
  to itself reads its record after deleting it.
\<close>

theorem CStructHdl_self_assignment:
  "CStructHdl_const_ptr (Some 0) caller_store = Inr (owner_hdl, sample_store) \<and>
   CStructHdl_assign owner_hdl owner_hdl sample_store = Inl undefined_behaviour"
  by (simp add: CStructHdl_const_ptr_def CStructHdl_assign_def delete_struct_def
      read_struct_def new_struct_def owner_hdl_def caller_store_def sample_store_def)

text \<open>The same wrappers in the two cases where the assignment does what the claim says.\<close>

lemma CStructHdl_assign_examples:
  "CStructHdl_ptr (Some 0) sample_store = Inr (alias_hdl, sample_store)"
  "CStructHdl_assign alias_hdl owner_hdl sample_store =
     Inr (alias_hdl, sample_store\<lparr>cells := (cells sample_store)(0 \<mapsto> \<lparr>iUniqueId = 10\<rparr>)\<rparr>)"
  "CStructHdl_assign owner_hdl alias_hdl sample_store =
     Inr (\<lparr>m_cStructure = Some 2, m_owner = True\<rparr>,
          \<lparr>cells = [0 \<mapsto> \<lparr>iUniqueId = 10\<rparr>, 2 \<mapsto> \<lparr>iUniqueId = 10\<rparr>], next_addr = 3\<rparr>)"
  by (simp_all add: CStructHdl_ptr_def CStructHdl_assign_def delete_struct_def read_struct_def
      new_struct_def owner_hdl_def alias_hdl_def sample_store_def)

section \<open>Instance creation\<close>

lemma check_and_stamp_cases:
  "check_and_stamp t i (status, None, w) =
     Inl (logic_error
       ''kodi::addon::CAddonBase CreateInstance returns a empty instance pointer!'')"
  "instances w a = Some obj \<Longrightarrow> m_type obj \<noteq> t \<Longrightarrow>
   check_and_stamp t i (status, Some a, w) =
     Inl (logic_error
       ''kodi::addon::CAddonBase CreateInstance with difference on given and returned instance type!'')"
  "instances w a = Some obj \<Longrightarrow> m_type obj = t \<Longrightarrow>
   check_and_stamp t i (status, Some a, w) =
     Inr (status, Some a, w\<lparr>instances := (instances w)(a \<mapsto> obj\<lparr>m_id := i\<rparr>)\<rparr>)"
  by (simp_all add: check_and_stamp_def)

text \<open>What the example add-on does in the example world.\<close>

lemma ex_parent_live: "instances example_world 5 = Some example_instance"
  by (simp add: example_world_def)

lemma ex_base_live: "addonBase (m_interface example_world) = Some 1"
  by (simp add: example_world_def)




lemma ex_hooks_18:
  "create_hooks example_classes 18 ''id-1'' (Some 100) ''1.0.0'' None None example_world =
     ([call_base_CreateInstance],
      Inr (ADDON_STATUS_OK, Some 7,
           example_world\<lparr>instances := (instances example_world)(7 \<mapsto>
              \<lparr>dyn_class = 0, m_type = 18, m_kodiVersion = ''1.0.0'', m_id = []\<rparr>)\<rparr>))"
  by (simp add: create_hooks_def create_via_parent_def create_via_base_def example_classes_def
      example_CreateInstance_def example_world_def)

lemma ex_hooks_20:
  "create_hooks example_classes 20 ''id-3'' (Some 100) ''1.0.0'' None None example_world =
     ([call_base_CreateInstance],
      Inr (ADDON_STATUS_OK, Some 9,
           example_world\<lparr>instances := (instances example_world)(9 \<mapsto>
              \<lparr>dyn_class = 0, m_type = 18, m_kodiVersion = ''1.0.0'', m_id = []\<rparr>)\<rparr>))"
  by (simp add: create_hooks_def create_via_parent_def create_via_base_def example_classes_def
      example_CreateInstance_def example_world_def)

lemma ex_hooks_21:
  "create_hooks example_classes 21 ''id-2'' (Some 100) ''1.0.0'' None None example_world =
     ([call_base_CreateInstance], Inr (ADDON_STATUS_UNKNOWN, None, example_world))"
  by (simp add: create_hooks_def create_via_parent_def create_via_base_def example_classes_def
      example_CreateInstance_def example_world_def)

text \<open>
  Claim C1. Let the two hooks, the parent's and then the base object's, have been tried
  and have left a status, an output handle and a world. If the handle is null, the
  dispatched call raises the logic error of the empty instance pointer; if the handle
  points at an object whose recorded type tag differs from the requested one, it raises
  the logic error of the differing type; otherwise it stores the requested identifier in
  the object's \<^verbatim>\<open>m_id\<close> and returns the hooks' status.
\<close>

theorem ADDONBASE_CreateInstance_checks:
  assumes "create_hooks V t i inst ver ai parent w = (tr, Inr (status, ai', w'))"
  shows "(ai' = None \<longrightarrow>
            ADDONBASE_CreateInstance V t i inst ver ai parent w =
              (tr, Inl (logic_error
                 ''kodi::addon::CAddonBase CreateInstance returns a empty instance pointer!''))) \<and>
         (\<forall>a obj. ai' = Some a \<and> instances w' a = Some obj \<and> m_type obj \<noteq> t \<longrightarrow>
            ADDONBASE_CreateInstance V t i inst ver ai parent w =
              (tr, Inl (logic_error
                 ''kodi::addon::CAddonBase CreateInstance with difference on given and returned instance type!''))) \<and>
         (\<forall>a obj. ai' = Some a \<and> instances w' a = Some obj \<and> m_type obj = t \<longrightarrow>
            ADDONBASE_CreateInstance V t i inst ver ai parent w =
              (tr, Inr (status, Some a,
                        w'\<lparr>instances := (instances w')(a \<mapsto> obj\<lparr>m_id := i\<rparr>)\<rparr>)))"
  using assms by (simp add: ADDONBASE_CreateInstance_def check_and_stamp_cases)

theorem ADDONBASE_CreateInstance_checks_witness:
  "ADDONBASE_CreateInstance example_classes 21 ''id-2'' (Some 100) ''1.0.0'' None None
     example_world =
     ([call_base_CreateInstance],
      Inl (logic_error
        ''kodi::addon::CAddonBase CreateInstance returns a empty instance pointer!'')) \<and>
   ADDONBASE_CreateInstance example_classes 20 ''id-3'' (Some 100) ''1.0.0'' None None
     example_world =
     ([call_base_CreateInstance],
      Inl (logic_error
        ''kodi::addon::CAddonBase CreateInstance with difference on given and returned instance type!'')) \<and>
   ADDONBASE_CreateInstance example_classes 18 ''id-1'' (Some 100) ''1.0.0'' None None
     example_world =
     ([call_base_CreateInstance],
      Inr (ADDON_STATUS_OK, Some 7,
           example_world\<lparr>instances := (instances example_world)(7 \<mapsto>
              \<lparr>dyn_class = 0, m_type = 18, m_kodiVersion = ''1.0.0'', m_id = ''id-1''\<rparr>)\<rparr>))"
  using ADDONBASE_CreateInstance_checks [OF ex_hooks_21]
    ADDONBASE_CreateInstance_checks [OF ex_hooks_20]
    ADDONBASE_CreateInstance_checks [OF ex_hooks_18]
  by simp

text \<open>
  Every normal return of the dispatched call hands back a live instance of the requested
  type that carries the requested identifier.
\<close>

lemma ADDONBASE_CreateInstance_returns:
  assumes "ADDONBASE_CreateInstance V t i inst ver ai parent w = (tr, Inr (status, h, w''))"
  shows "\<exists>a obj. h = Some a \<and> instances w'' a = Some obj \<and> m_type obj = t \<and> m_id obj = i"
  using assms
  by (auto simp: ADDONBASE_CreateInstance_def check_and_stamp_def
      split: prod.splits sum.splits option.splits if_splits)



text \<open>
  Claim C3. With a null parent the base object's hook is the only call, in every world
  that has a base object, whether or not an instance is live yet. With a parent, the
  parent's hook is called first, and the base object's hook is called after it exactly
  when the parent's hook returned \<^verbatim>\<open>ADDON_STATUS_NOT_IMPLEMENTED\<close>, then with the
  handle and the world the parent's hook left. The default hook of \<^verbatim>\<open>IAddonInstance\<close>
  declines on every call.
\<close>

theorem ADDONBASE_CreateInstance_order:
  assumes "addonBase (m_interface w) = Some b"
  shows "fst (ADDONBASE_CreateInstance V t i inst ver ai None w) = [call_base_CreateInstance] \<and>
         create_hooks V t i inst ver ai None w =
           ([call_base_CreateInstance], base_CreateInstance V t i inst ver ai w) \<and>
         (\<forall>p pobj. instances w p = Some pobj \<longrightarrow>
            fst (ADDONBASE_CreateInstance V t i inst ver ai (Some p) w) =
              call_parent_CreateInstance p #
                (if declined (instance_CreateInstance V (dyn_class pobj) t i inst ver ai w)
                 then [call_base_CreateInstance] else []) \<and>
            create_hooks V t i inst ver ai (Some p) w =
              (case instance_CreateInstance V (dyn_class pobj) t i inst ver ai w of
                 Inl e \<Rightarrow> ([call_parent_CreateInstance p], Inl e)
               | Inr (status, ai1, w1) \<Rightarrow>
                   if status = ADDON_STATUS_NOT_IMPLEMENTED
                   then ([call_parent_CreateInstance p, call_base_CreateInstance],
                         base_CreateInstance V t i inst ver ai1 w1)
                   else ([call_parent_CreateInstance p], Inr (status, ai1, w1)))) \<and>
         (\<forall>t' i' inst' ver' ai' w'.
            declined (IAddonInstance_CreateInstance t' i' inst' ver' ai' w') \<and>
            IAddonInstance_CreateInstance t' i' inst' ver' ai' w' =
              Inr (ADDON_STATUS_NOT_IMPLEMENTED, ai', w'))"
  using assms
  by (auto simp: ADDONBASE_CreateInstance_def create_hooks_def create_via_parent_def
      create_via_base_def IAddonInstance_CreateInstance_def declined_def
      split: sum.splits prod.splits option.splits)

theorem ADDONBASE_CreateInstance_order_witness:
  "fst (ADDONBASE_CreateInstance example_classes 18 ''id-1'' (Some 100) ''1.0.0'' None None
          fresh_world) = [call_base_CreateInstance] \<and>
   create_hooks example_classes 18 ''id-1'' (Some 100) ''1.0.0'' None None fresh_world =
     ([call_base_CreateInstance],
      Inr (ADDON_STATUS_OK, Some 7,
           fresh_world\<lparr>instances := (instances fresh_world)(7 \<mapsto>
              \<lparr>dyn_class = 0, m_type = 18, m_kodiVersion = ''1.0.0'', m_id = []\<rparr>)\<rparr>)) \<and>
   fst (ADDONBASE_CreateInstance example_classes 18 ''id-1'' (Some 100) ''1.0.0'' None None
          example_world) = [call_base_CreateInstance] \<and>
   fst (ADDONBASE_CreateInstance example_classes 18 ''id-1'' (Some 100) ''1.0.0'' None (Some 5)
          example_world) = [call_parent_CreateInstance 5, call_base_CreateInstance] \<and>
   fst (ADDONBASE_CreateInstance example_classes 30 ''id-5'' (Some 100) ''1.0.0'' None (Some 5)
          example_world) = [call_parent_CreateInstance 5]"
proof -
  have fb: "addonBase (m_interface fresh_world) = Some 1"
    by (simp add: fresh_world_def)
  have b18: "base_CreateInstance example_classes 18 ''id-1'' (Some 100) ''1.0.0'' None
      fresh_world =
      Inr (ADDON_STATUS_OK, Some 7,
           fresh_world\<lparr>instances := (instances fresh_world)(7 \<mapsto>
              \<lparr>dyn_class = 0, m_type = 18, m_kodiVersion = ''1.0.0'', m_id = []\<rparr>)\<rparr>)"
    by (simp add: example_classes_def example_CreateInstance_def)
  have d18: "declined (instance_CreateInstance example_classes (dyn_class example_instance) 18
      ''id-1'' (Some 100) ''1.0.0'' None example_world)"
    by (simp add: declined_def example_classes_def example_instance_CreateInstance_def
        IAddonInstance_CreateInstance_def)
  have d30: "\<not> declined (instance_CreateInstance example_classes (dyn_class example_instance) 30
      ''id-5'' (Some 100) ''1.0.0'' None example_world)"
    by (simp add: declined_def example_classes_def example_instance_CreateInstance_def
        example_instance_def)
  show ?thesis
    using b18 d18 d30 ex_parent_live
      ADDONBASE_CreateInstance_order [OF fb,
        of example_classes 18 "''id-1''" "Some 100" "''1.0.0''" None]
      ADDONBASE_CreateInstance_order [OF ex_base_live,
        of example_classes 18 "''id-1''" "Some 100" "''1.0.0''" None]
      ADDONBASE_CreateInstance_order [OF ex_base_live,
        of example_classes 30 "''id-5''" "Some 100" "''1.0.0''" None]
    by simp
qed

text \<open>
  Claim C4. In single-default-instance mode, a request whose host handle is the one
  recorded at load time and whose type tag is the one recorded in the global single
  instance is answered by \<^verbatim>\<open>CAddonBase::CreateInstance\<close> with \<^verbatim>\<open>ADDON_STATUS_OK\<close> and
  that stored instance, in an unchanged world: nothing is created. Dispatched to an
  add-on that keeps this hook, the call returns the same instance and status, its only
  effect being the identifier stored in the instance.
\<close>

theorem single_instance_shortcut:
  assumes "firstKodiInstance (m_interface w) = inst"
    and "globalSingleInstance (m_interface w) = Some g"
    and "instances w g = Some gobj"
    and "m_type gobj = t"
    and "addonBase (m_interface w) = Some b"
    and "base_CreateInstance V = CAddonBase_CreateInstance"
  shows "CAddonBase_CreateInstance t i inst ver ai w = Inr (ADDON_STATUS_OK, Some g, w) \<and>
         ADDONBASE_CreateInstance V t i inst ver ai None w =
           ([call_base_CreateInstance],
            Inr (ADDON_STATUS_OK, Some g,
                 w\<lparr>instances := (instances w)(g \<mapsto> gobj\<lparr>m_id := i\<rparr>)\<rparr>))"
  using assms
  by (simp add: CAddonBase_CreateInstance_def ADDONBASE_CreateInstance_def create_hooks_def
      create_via_parent_def create_via_base_def check_and_stamp_cases)

theorem single_instance_shortcut_witness:
  "CAddonBase_CreateInstance 18 ''id-0'' (Some 100) ''1.0.0'' None single_world =
     Inr (ADDON_STATUS_OK, Some 2, single_world) \<and>
   ADDONBASE_CreateInstance default_classes 18 ''id-0'' (Some 100) ''1.0.0'' None None
     single_world =
     ([call_base_CreateInstance],
      Inr (ADDON_STATUS_OK, Some 2,
           single_world\<lparr>instances := (instances single_world)(2 \<mapsto>
              single_instance\<lparr>m_id := ''id-0''\<rparr>)\<rparr>))"
proof -
  have 1: "firstKodiInstance (m_interface single_world) = Some 100"
    and 2: "globalSingleInstance (m_interface single_world) = Some 2"
    and 3: "instances single_world 2 = Some single_instance"
    and 4: "m_type single_instance = 18"
    and 5: "addonBase (m_interface single_world) = Some 1"
    and 6: "base_CreateInstance default_classes = CAddonBase_CreateInstance"
    by (simp_all add: single_world_def single_instance_def default_classes_def)
  show ?thesis
    using single_instance_shortcut [OF 1 2 3 4 5 6] by simp
qed

section \<open>Instance destruction\<close>

text \<open>
  Claim C2. Let the handle point at a live instance. In multi-instance mode (no global
  single instance) and with a handle other than the base object: if the instance's
  recorded type tag is the given one, the base object's \<^verbatim>\<open>DestroyInstance\<close> hook is
  called with the identifier stored in the instance and the instance is deleted after
  it; if the tags differ, the logic error of the differing type is raised and nothing is
  called. If a global single instance is configured, or the handle is the base
  object, nothing is called and the world stays as it is.
\<close>

theorem ADDONBASE_DestroyInstance_cases:
  assumes "instances w a = Some obj"
  shows "(globalSingleInstance (m_interface w) = None \<and> Some a \<noteq> addonBase (m_interface w) \<and>
          m_type obj = t \<and> addonBase (m_interface w) = Some b \<and>
          base_DestroyInstance V t (m_id obj) (Some a) w = Inr w' \<and> a \<in> dom (instances w') \<longrightarrow>
            ADDONBASE_DestroyInstance V t (Some a) w =
              ([call_base_DestroyInstance t (m_id obj) (Some a), delete_instance a],
               Inr (w'\<lparr>instances := (instances w')(a := None)\<rparr>))) \<and>
         (globalSingleInstance (m_interface w) = None \<and> Some a \<noteq> addonBase (m_interface w) \<and>
          m_type obj \<noteq> t \<longrightarrow>
            ADDONBASE_DestroyInstance V t (Some a) w =
              ([], Inl (logic_error
                 ''kodi::addon::CAddonBase DestroyInstance called with difference on given and present instance type!''))) \<and>
         (globalSingleInstance (m_interface w) \<noteq> None \<or> h = addonBase (m_interface w) \<longrightarrow>
            ADDONBASE_DestroyInstance V t h w = ([], Inr w))"
  using assms
  by (auto simp: ADDONBASE_DestroyInstance_def)

theorem ADDONBASE_DestroyInstance_cases_witness:
  "ADDONBASE_DestroyInstance example_classes 18 (Some 5) example_world =
     ([call_base_DestroyInstance 18 ''saver'' (Some 5), delete_instance 5],
      Inr (example_world\<lparr>instances := (instances example_world)(5 := None)\<rparr>)) \<and>
   ADDONBASE_DestroyInstance example_classes 19 (Some 5) example_world =
     ([], Inl (logic_error
        ''kodi::addon::CAddonBase DestroyInstance called with difference on given and present instance type!'')) \<and>
   ADDONBASE_DestroyInstance example_classes 18 (Some 1) example_world =
     ([], Inr example_world) \<and>
   ADDONBASE_DestroyInstance default_classes 18 (Some 2) single_world = ([], Inr single_world)"
proof -
  have m: "globalSingleInstance (m_interface example_world) = None"
    and n: "Some 5 \<noteq> addonBase (m_interface example_world)"
    and ty: "m_type example_instance = 18" "m_type example_instance \<noteq> 19"
    and idn: "m_id example_instance = ''saver''"
    and hook: "base_DestroyInstance example_classes 18 (m_id example_instance) (Some 5)
        example_world = Inr example_world"
    and live: "5 \<in> dom (instances example_world)"
    by (simp_all add: example_world_def example_instance_def example_classes_def
        CAddonBase_DestroyInstance_def)
  have s: "globalSingleInstance (m_interface single_world) \<noteq> None"
    and sl: "instances single_world 2 = Some single_instance"
    by (simp_all add: single_world_def)
  show ?thesis
    using m n ty idn hook live s ex_base_live
      ADDONBASE_DestroyInstance_cases [OF ex_parent_live,
        of 18 1 example_classes example_world "Some 1"]
      ADDONBASE_DestroyInstance_cases [OF ex_parent_live,
        of 19 1 example_classes example_world "Some 1"]
      ADDONBASE_DestroyInstance_cases [OF sl,
        of 18 1 default_classes single_world "Some 2"]
    by simp
qed

end
